theory Spec2Isabelle
  imports Main "HOL-Library.Word" "HOL-Library.Char_ord" "HOL-Library.List_Lexorder"
    "HOL-Library.Multiset"
begin

section \<open>The search server of server.go\<close>

text \<open>
  The handler \<open>SearchServer\<close> of server.go and the stages it runs: \<open>parseParams\<close>,
  \<open>filterData\<close> (with \<open>isRowMatching\<close>), \<open>sortData\<close>, \<open>paginateData\<close> and
  \<open>sendResponse\<close>. Go's \<open>int\<close> is taken as the 64-bit signed integer: a 64-bit word
  read with \<open>sint\<close>, compared with \<open><s\<close>, whose subtraction wraps around. A Go string is
  its byte sequence, a \<open>string\<close> here, and \<open><\<close> on strings is the bytewise
  lexicographic order, as in Go.
\<close>

subsection \<open>Data\<close>

type_synonym int64 = "64 word"

text \<open>The struct \<open>row\<close> (one record of the XML file); its fields are prefixed, since
  \<open>User\<close> has fields of the same names.\<close>

record row =
  row_ID :: int64
  row_FirstName :: string
  row_LastName :: string
  row_Age :: int64
  row_About :: string
  row_Gender :: string

record xmlData =
  Rows :: "row list"

text \<open>The struct \<open>User\<close> is declared outside server.go; these are the five fields
  that \<open>filterData\<close> fills and \<open>sortData\<close> reads.\<close>

record User =
  ID :: int64
  Name :: string
  Age :: int64
  About :: string
  Gender :: string

text \<open>The struct \<open>queryDTO\<close>. The fields are prefixed with \<open>q_\<close>: the stage functions
  use the bare names as parameters.\<close>

record queryDTO =
  q_query :: string
  q_orderField :: string
  q_orderBy :: int64
  q_offset :: int64
  q_limit :: int64

text \<open>
  A Go slice is a window into a backing array: \<open>elems\<close> are the elements below its
  length, \<open>spare\<close> the elements of the backing array between its length and its
  capacity. Re-slicing \<open>s[:n]\<close> is checked against the capacity, not the length, so the
  spare elements can come into view.
\<close>

record 'a slice =
  elems :: "'a list"
  spare :: "'a list"

definition len :: "'a slice \<Rightarrow> nat" where
  "len s = length (elems s)"

definition cap :: "'a slice \<Rightarrow> nat" where
  "cap s = length (elems s) + length (spare s)"

subsection \<open>Errors and panics\<close>

text \<open>
  The error values of the program: strconv's \<open>*NumError\<close> (function name, the input, the
  cause) and the \<open>errors.New\<close> string error. A run-time panic of a slice expression
  \<open>s[:high]\<close> or \<open>s[low:]\<close> keeps the offending bound and the bound it was checked
  against.
\<close>

datatype err_kind = ErrSyntax | ErrRange

datatype error = NumError string string err_kind | errorString string

datatype panic = SliceBoundsHigh int64 nat | SliceBoundsLow int64 nat

text \<open>
  Bytes written to a response. The text of \<open>strconv.Quote\<close> and of \<open>json.Marshal\<close> is
  kept symbolic: \<open>Quoted s\<close> stands for the quoted form of \<open>s\<close>, \<open>Marshal us\<close> for the
  JSON array of the users \<open>us\<close>.
\<close>

datatype piece = Lit string | Quoted string | Marshal "User list"

fun err_kind_text :: "err_kind \<Rightarrow> string" where
  "err_kind_text ErrSyntax = ''invalid syntax''"
| "err_kind_text ErrRange = ''value out of range''"

text \<open>The method \<open>Error()\<close> of an error value.\<close>

fun Error :: "error \<Rightarrow> piece list" where
  "Error (errorString s) = [Lit s]"
| "Error (NumError fn num k) =
     [Lit (''strconv.'' @ fn @ '': parsing ''), Quoted num, Lit ('': '' @ err_kind_text k)]"

subsection \<open>strconv.Atoi\<close>

text \<open>
  \<open>strconv.Atoi s\<close> is \<open>ParseInt(s, 10, 0)\<close> converted to \<open>int\<close>, with the function name
  of the error set to Atoi. \<open>ParseUint\<close> reads decimal digits into an unsigned 64-bit
  number and \<open>ParseInt\<close> handles the sign and the signed range. Both return a value
  together with the error, as in Go.
\<close>

definition is_digit :: "char \<Rightarrow> bool" where
  "is_digit c = (48 \<le> (of_char c :: nat) \<and> (of_char c :: nat) \<le> 57)"

definition maxUint64 :: nat where
  "maxUint64 = 2 ^ 64 - 1"

fun ParseUint_loop :: "string \<Rightarrow> nat \<Rightarrow> nat \<times> err_kind option" where
  "ParseUint_loop [] n = (n, None)"
| "ParseUint_loop (c # s) n =
     (if \<not> is_digit c then (0, Some ErrSyntax)
      else if n \<ge> maxUint64 div 10 + 1 then (maxUint64, Some ErrRange)
      else let n1 = n * 10 + (of_char c - 48) in
        if n1 > maxUint64 then (maxUint64, Some ErrRange)
        else ParseUint_loop s n1)"

definition ParseUint :: "string \<Rightarrow> nat \<times> err_kind option" where
  "ParseUint s = (if s = [] then (0, Some ErrSyntax) else ParseUint_loop s 0)"

definition ParseInt :: "string \<Rightarrow> int64 \<times> err_kind option" where
  "ParseInt s =
     (if s = [] then (0, Some ErrSyntax)
      else
        let neg = (hd s = CHR ''-'');
            s1 = (if hd s = CHR ''+'' \<or> hd s = CHR ''-'' then tl s else s);
            (un, err) = ParseUint s1
        in if err = Some ErrSyntax then (0, err)
           else if \<not> neg \<and> un \<ge> 2 ^ 63 then (word_of_nat (2 ^ 63 - 1), Some ErrRange)
           else if neg \<and> un > 2 ^ 63 then (- word_of_nat (2 ^ 63), Some ErrRange)
           else (if neg then - word_of_nat un else word_of_nat un, None))"

definition Atoi :: "string \<Rightarrow> int64 \<times> error option" where
  "Atoi s = (case ParseInt s of
      (i, None) \<Rightarrow> (i, None)
    | (i, Some k) \<Rightarrow> (i, Some (NumError ''Atoi'' s k)))"

subsection \<open>The request and parseParams\<close>

text \<open>
  \<open>url.Values\<close> maps a key to the list of its values; \<open>Get\<close> returns the first one, or
  the empty string. Of the request the handler reads the value of the header
  \<open>AccessToken\<close> and the parsed query of the URL.
\<close>

type_synonym Values = "string \<Rightarrow> string list option"

definition Get :: "Values \<Rightarrow> string \<Rightarrow> string" where
  "Get v key = (case v key of None \<Rightarrow> [] | Some vs \<Rightarrow> (case vs of [] \<Rightarrow> [] | x # _ \<Rightarrow> x))"

record Request =
  AccessToken :: string
  URL_Query :: Values

text \<open>
  \<open>parseParams\<close> assigns the fields of its receiver one after the other; the single
  variable \<open>err\<close> is assigned by each of the three calls of \<open>Atoi\<close> and returned at the
  end.
\<close>

definition parseParams :: "queryDTO \<Rightarrow> Request \<Rightarrow> queryDTO \<times> error option" where
  "parseParams q r =
     (let queryValues = URL_Query r;
          q = q\<lparr>q_query := Get queryValues ''query''\<rparr>;
          q = q\<lparr>q_orderField := Get queryValues ''order_field''\<rparr>;
          (v, err) = Atoi (Get queryValues ''order_by'');
          q = q\<lparr>q_orderBy := v\<rparr>;
          q = (if err \<noteq> None then q\<lparr>q_orderBy := 0\<rparr> else q);
          (v, err) = Atoi (Get queryValues ''offset'');
          q = q\<lparr>q_offset := v\<rparr>;
          q = (if err \<noteq> None then q\<lparr>q_offset := 0\<rparr> else q);
          (v, err) = Atoi (Get queryValues ''limit'');
          q = q\<lparr>q_limit := v\<rparr>;
          q = (if err \<noteq> None then q\<lparr>q_limit := 0\<rparr> else q)
      in (q, err))"

subsection \<open>The filter stage\<close>

text \<open>\<open>strings.Contains s substr\<close>: some suffix of \<open>s\<close> starts with \<open>substr\<close>.\<close>

definition HasPrefix :: "string \<Rightarrow> string \<Rightarrow> bool" where
  "HasPrefix s p = (length p \<le> length s \<and> take (length p) s = p)"

fun Contains :: "string \<Rightarrow> string \<Rightarrow> bool" where
  "Contains [] substr = (substr = [])"
| "Contains (c # s) substr = (HasPrefix (c # s) substr \<or> Contains s substr)"

definition isRowMatching :: "row \<Rightarrow> string \<Rightarrow> bool" where
  "isRowMatching rw query =
     (Contains (row_FirstName rw) query \<or>
      Contains (row_LastName rw) query \<or>
      Contains (row_About rw) query)"

text \<open>
  \<open>make([]User, 0)\<close> and \<open>append\<close>. When the backing array is full, \<open>append\<close> moves the
  elements to a new zeroed array; how much room the new array has is the Go run-time's
  choice, the parameter \<open>growcap\<close> (old capacity, needed length), and it is never less
  than the needed length.
\<close>

definition zero_User :: User where
  "zero_User = \<lparr>ID = 0, Name = [], Age = 0, About = [], Gender = []\<rparr>"

definition make_slice :: "User slice" where
  "make_slice = \<lparr>elems = [], spare = []\<rparr>"

definition append_slice :: "(nat \<Rightarrow> nat \<Rightarrow> nat) \<Rightarrow> User slice \<Rightarrow> User \<Rightarrow> User slice" where
  "append_slice growcap s x =
     (case spare s of
        [] \<Rightarrow> \<lparr>elems = elems s @ [x],
               spare = replicate (max (len s + 1) (growcap (cap s) (len s + 1)) - (len s + 1))
                         zero_User\<rparr>
      | _ # rest \<Rightarrow> \<lparr>elems = elems s @ [x], spare = rest\<rparr>)"

definition to_User :: "row \<Rightarrow> User" where
  "to_User rw =
     \<lparr>ID = row_ID rw, Name = row_FirstName rw @ '' '' @ row_LastName rw, Age = row_Age rw,
      About = row_About rw, Gender = row_Gender rw\<rparr>"

fun filterData_loop ::
  "(nat \<Rightarrow> nat \<Rightarrow> nat) \<Rightarrow> row list \<Rightarrow> string \<Rightarrow> User slice \<Rightarrow> User slice" where
  "filterData_loop growcap [] query result = result"
| "filterData_loop growcap (rw # rows) query result =
     (if query \<noteq> [] \<and> \<not> isRowMatching rw query
      then filterData_loop growcap rows query result
      else filterData_loop growcap rows query (append_slice growcap result (to_User rw)))"

definition filterData :: "(nat \<Rightarrow> nat \<Rightarrow> nat) \<Rightarrow> xmlData \<Rightarrow> string \<Rightarrow> User slice" where
  "filterData growcap data query = filterData_loop growcap (Rows data) query make_slice"

subsection \<open>The sort stage\<close>

text \<open>
  The constants \<open>OrderByAsc\<close> and \<open>OrderByAsIs\<close> are declared outside server.go: they
  are parameters here. So is \<open>sort.Slice\<close> of Go's standard library, taken as a
  function from the comparator and the elements to the reordered elements. The
  comparator of the source reads the elements at two indices; here it is given the
  two elements.
\<close>

type_synonym sorter = "(User \<Rightarrow> User \<Rightarrow> bool) \<Rightarrow> User list \<Rightarrow> User list"

definition isLess :: "int64 \<Rightarrow> string \<Rightarrow> int64 \<Rightarrow> (User \<Rightarrow> User \<Rightarrow> bool) option" where
  "isLess OrderByAsc orderField orderBy =
     (if orderField = [] \<or> orderField = ''name''
        then Some (\<lambda>a b. Name a < Name b \<and> orderBy = OrderByAsc)
      else if orderField = ''id''
        then Some (\<lambda>a b. ID a <s ID b \<and> orderBy = OrderByAsc)
      else if orderField = ''age''
        then Some (\<lambda>a b. Age a <s Age b \<and> orderBy = OrderByAsc)
      else None)"

definition sortData ::
  "sorter \<Rightarrow> int64 \<Rightarrow> User slice \<Rightarrow> string \<Rightarrow> int64 \<Rightarrow> error + User slice" where
  "sortData sort_Slice OrderByAsc data orderField orderBy =
     (case isLess OrderByAsc orderField orderBy of
        None \<Rightarrow> Inl (errorString ''OrderField invalid'')
      | Some cmp \<Rightarrow> Inr (data\<lparr>elems := sort_Slice cmp (elems data)\<rparr>))"

subsection \<open>The paginate stage\<close>

text \<open>
  The slice expressions \<open>data[low:]\<close> and \<open>data[:high]\<close> with Go's run-time checks:
  \<open>0 \<le> low \<le> len\<close> for the first, \<open>0 \<le> high \<le> cap\<close> for the second. A bound out of
  range is a run-time panic.
\<close>

definition slice_from :: "'a slice \<Rightarrow> int64 \<Rightarrow> panic + 'a slice" where
  "slice_from data low =
     (if sint low < 0 \<or> int (len data) < sint low then Inl (SliceBoundsLow low (len data))
      else Inr (data\<lparr>elems := drop (nat (sint low)) (elems data)\<rparr>))"

definition slice_to :: "'a slice \<Rightarrow> int64 \<Rightarrow> panic + 'a slice" where
  "slice_to data high =
     (if sint high < 0 \<or> int (cap data) < sint high then Inl (SliceBoundsHigh high (cap data))
      else Inr \<lparr>elems = take (nat (sint high)) (elems data @ spare data),
                spare = drop (nat (sint high)) (elems data @ spare data)\<rparr>)"

definition paginate_offset :: "'a slice \<Rightarrow> int64 \<Rightarrow> panic + 'a slice" where
  "paginate_offset data offset =
     (if 0 <s offset then
        (if sint offset < int (len data) then slice_from data offset
         else Inr \<lparr>elems = [], spare = []\<rparr>)
      else Inr data)"

definition paginateData :: "'a slice \<Rightarrow> int64 \<Rightarrow> int64 \<Rightarrow> panic + 'a slice" where
  "paginateData data offset limit =
     (case paginate_offset data offset of
        Inl p \<Rightarrow> Inl p
      | Inr data \<Rightarrow> if 0 <s limit - 1 then slice_to data limit else Inr data)"

subsection \<open>The response\<close>

text \<open>
  The \<open>http.ResponseWriter\<close>: the header map the handler edits, whether the status line
  and the headers have gone out, with which status and which headers (\<open>sent\<close>), the
  body written so far, and the error that \<open>Write\<close> returns on this connection
  (\<open>None\<close> when writes succeed). \<open>WriteHeader\<close> has an effect once only; the first
  \<open>Write\<close> sends status 200 when no status has gone out.
\<close>

record ResponseWriter =
  header :: "string \<Rightarrow> string option"
  wroteHeader :: bool
  status :: nat
  sent :: "string \<Rightarrow> string option"
  body :: "piece list"
  writeErr :: "error option"

definition NewResponseWriter :: ResponseWriter where
  "NewResponseWriter =
     \<lparr>header = Map.empty, wroteHeader = False, status = 0, sent = Map.empty, body = [],
      writeErr = None\<rparr>"

definition Header_Set :: "ResponseWriter \<Rightarrow> string \<Rightarrow> string \<Rightarrow> ResponseWriter" where
  "Header_Set w k v = w\<lparr>header := (header w)(k \<mapsto> v)\<rparr>"

definition Header_Del :: "ResponseWriter \<Rightarrow> string \<Rightarrow> ResponseWriter" where
  "Header_Del w k = w\<lparr>header := (header w)(k := None)\<rparr>"

definition WriteHeader :: "ResponseWriter \<Rightarrow> nat \<Rightarrow> ResponseWriter" where
  "WriteHeader w code =
     (if wroteHeader w then w else w\<lparr>wroteHeader := True, status := code, sent := header w\<rparr>)"

definition Write :: "ResponseWriter \<Rightarrow> piece list \<Rightarrow> ResponseWriter \<times> error option" where
  "Write w bytes =
     (let w = (if wroteHeader w then w else WriteHeader w 200) in
      case writeErr w of
        Some e \<Rightarrow> (w, Some e)
      | None \<Rightarrow> (w\<lparr>body := body w @ bytes\<rparr>, None))"

text \<open>\<open>http.Error\<close>: a plain-text reply with the given status; the message and a
  newline go to the body, a failing write is not reported.\<close>

definition http_Error :: "ResponseWriter \<Rightarrow> piece list \<Rightarrow> nat \<Rightarrow> ResponseWriter" where
  "http_Error w msg code =
     (let w = Header_Del w ''Content-Length'';
          w = Header_Set w ''Content-Type'' ''text/plain; charset=utf-8'';
          w = Header_Set w ''X-Content-Type-Options'' ''nosniff'';
          w = WriteHeader w code
      in fst (Write w (msg @ [Lit [CHR 0x0A]])))"

text \<open>\<open>json.Marshal\<close> of a slice of users cannot fail.\<close>

definition json_Marshal :: "User list \<Rightarrow> piece list \<times> error option" where
  "json_Marshal data = ([Marshal data], None)"

definition sendResponse :: "ResponseWriter \<Rightarrow> User list \<Rightarrow> ResponseWriter" where
  "sendResponse w data =
     (case json_Marshal data of
        (jsonFile, Some err) \<Rightarrow> http_Error w [Lit ''cant marshal json''] 500
      | (jsonFile, None) \<Rightarrow>
          (let w = Header_Set w ''Content-Type'' ''application/json'';
               (w, err) = Write w jsonFile
           in if err \<noteq> None then http_Error w [Lit ''cant write json''] 500 else w))"

subsection \<open>The handler\<close>

text \<open>The variable \<open>accessToken\<close> of the package (declared in coverage_test.go).\<close>

definition accessToken :: string where
  "accessToken = ''qwerty12345''"

text \<open>What opening, reading and unmarshalling the XML file gives the handler.\<close>

datatype source = OpenFails error | ReadFails error | UnmarshalFails error | Loaded xmlData

text \<open>The value \<open>&queryDTO{}\<close> that the handler starts from.\<close>

definition zero_queryDTO :: queryDTO where
  "zero_queryDTO =
     \<lparr>q_query = [], q_orderField = [], q_orderBy = 0, q_offset = 0, q_limit = 0\<rparr>"

definition error_envelope :: "error \<Rightarrow> piece list" where
  \<open>error_envelope err = [Lit ''{ "Error": "''] @ Error err @ [Lit ''" }'']\<close>

text \<open>
  The handler returns the response writer as it leaves it, or the panic it dies of.
  \<open>paginate_and_send\<close> is its last two statements.
\<close>

definition paginate_and_send ::
  "ResponseWriter \<Rightarrow> User slice \<Rightarrow> queryDTO \<Rightarrow> panic + ResponseWriter" where
  "paginate_and_send w result params =
     (case paginateData result (q_offset params) (q_limit params) of
        Inl p \<Rightarrow> Inl p
      | Inr result \<Rightarrow> Inr (sendResponse w (elems result)))"

definition SearchServer ::
  "sorter \<Rightarrow> (nat \<Rightarrow> nat \<Rightarrow> nat) \<Rightarrow> int64 \<Rightarrow> int64 \<Rightarrow> source \<Rightarrow> ResponseWriter \<Rightarrow> Request
     \<Rightarrow> panic + ResponseWriter" where
  "SearchServer sort_Slice growcap OrderByAsc OrderByAsIs file w r =
     (if AccessToken r \<noteq> accessToken then Inr (http_Error w [Lit ''Invalid AccessToken''] 401)
      else case file of
        OpenFails err \<Rightarrow> Inr (http_Error w (Error err) 500)
      | ReadFails err \<Rightarrow> Inr (http_Error w (Error err) 500)
      | UnmarshalFails err \<Rightarrow> Inr (http_Error w (Error err) 500)
      | Loaded data \<Rightarrow>
          (let (params, err) = parseParams zero_queryDTO r;
               w = (case err of Some e \<Rightarrow> http_Error w (Error e) 500 | None \<Rightarrow> w);
               result = filterData growcap data (q_query params)
           in if q_orderBy params \<noteq> OrderByAsIs then
                (case sortData sort_Slice OrderByAsc result (q_orderField params)
                        (q_orderBy params) of
                   Inl err \<Rightarrow>
                     (let w = Header_Set w ''Content-Type'' ''application/json'';
                          w = WriteHeader w 400;
                          (w, err) = Write w (error_envelope err)
                      in Inr (if err \<noteq> None then http_Error w [Lit ''cant write json''] 500
                              else w))
                 | Inr sortedData \<Rightarrow> paginate_and_send w sortedData params)
              else paginate_and_send w result params))"

subsection \<open>Notions used to state the properties\<close>

text \<open>\<open>substring_of sub s\<close>: \<open>sub\<close> occurs in \<open>s\<close> as a contiguous run of bytes.\<close>

definition substring_of :: "string \<Rightarrow> string \<Rightarrow> bool" where
  "substring_of sub s = (\<exists>ps ss. s = ps @ sub @ ss)"

text \<open>A record whose full name is \<open>Ann Lee\<close>.\<close>

definition ann_lee :: row where
  "ann_lee = \<lparr>row_ID = 1, row_FirstName = ''Ann'', row_LastName = ''Lee'', row_Age = 30,
     row_About = ''Likes tea'', row_Gender = ''female''\<rparr>"

section \<open>Properties\<close>

subsection \<open>The filter stage\<close>

lemma HasPrefix_iff: "HasPrefix s p \<longleftrightarrow> (\<exists>ss. s = p @ ss)"
proof
  assume "HasPrefix s p"
  then have "s = p @ drop (length p) s"
    by (metis HasPrefix_def append_take_drop_id)
  then show "\<exists>ss. s = p @ ss" ..
next
  assume "\<exists>ss. s = p @ ss"
  then show "HasPrefix s p" by (auto simp: HasPrefix_def)
qed

lemma Contains_iff: "Contains s sub \<longleftrightarrow> substring_of sub s"
proof (induction s)
  case Nil
  show ?case by (auto simp: substring_of_def)
next
  case (Cons c s)
  show ?case
  proof
    assume "Contains (c # s) sub"
    then consider "HasPrefix (c # s) sub" | "Contains s sub" by auto
    then show "substring_of sub (c # s)"
    proof cases
      case 1
      then obtain ss where "c # s = sub @ ss" by (auto simp: HasPrefix_iff)
      then have "c # s = [] @ sub @ ss" by simp
      then show ?thesis unfolding substring_of_def by blast
    next
      case 2
      then obtain ps ss where "s = ps @ sub @ ss" using Cons.IH by (auto simp: substring_of_def)
      then have "c # s = (c # ps) @ sub @ ss" by simp
      then show ?thesis unfolding substring_of_def by blast
    qed
  next
    assume "substring_of sub (c # s)"
    then obtain ps ss where eq: "c # s = ps @ sub @ ss" by (auto simp: substring_of_def)
    show "Contains (c # s) sub"
    proof (cases ps)
      case Nil
      with eq have "HasPrefix (c # s) sub" by (auto simp: HasPrefix_iff)
      then show ?thesis by simp
    next
      case (Cons p ps')
      with eq have "s = ps' @ sub @ ss" by simp
      then have "substring_of sub s" unfolding substring_of_def by blast
      then show ?thesis using Cons.IH by simp
    qed
  qed
qed

lemma elems_append_slice: "elems (append_slice g s x) = elems s @ [x]"
  by (simp add: append_slice_def split: list.splits)

lemma elems_filterData_loop:
  "elems (filterData_loop g rows query result) =
     elems result @ map to_User (filter (\<lambda>rw. query = [] \<or> isRowMatching rw query) rows)"
  by (induction rows arbitrary: result) (auto simp: elems_append_slice)

lemma elems_filterData:
  "elems (filterData g data query) =
     map to_User (filter (\<lambda>rw. query = [] \<or> isRowMatching rw query) (Rows data))"
  by (simp add: filterData_def elems_filterData_loop make_slice_def)

lemma substring_of_append_left: "substring_of sub s \<Longrightarrow> substring_of sub (s @ t)"
  unfolding substring_of_def by (metis append.assoc)

lemma substring_of_append_right: "substring_of sub t \<Longrightarrow> substring_of sub (s @ t)"
  unfolding substring_of_def by (metis append.assoc)

lemma substring_of_Name:
  "substring_of sub (row_FirstName rw) \<or> substring_of sub (row_LastName rw)
     \<Longrightarrow> substring_of sub (Name (to_User rw))"
proof -
  have "Name (to_User rw) = row_FirstName rw @ ('' '' @ row_LastName rw)"
    by (simp add: to_User_def)
  moreover assume "substring_of sub (row_FirstName rw) \<or> substring_of sub (row_LastName rw)"
  ultimately show ?thesis
    by (metis substring_of_append_left substring_of_append_right)
qed

text \<open>
  C1 (amended). The filter stage keeps the records in the order of the file, and it
  keeps a record exactly when the filter is empty or the filter occurs, byte for byte,
  in the first name, in the last name or in the biography. So for a non-empty filter
  the full name or the biography of every record kept contains the filter. A filter
  that occurs in the full name only across the space that joins the two names selects
  nothing.
\<close>

theorem filterData_includes:
  "elems (filterData growcap data query) =
     map to_User (filter (\<lambda>rw. query = [] \<or> substring_of query (row_FirstName rw) \<or>
        substring_of query (row_LastName rw) \<or> substring_of query (row_About rw)) (Rows data))
   \<and> (\<forall>u \<in> set (elems (filterData growcap data query)).
        query \<noteq> [] \<longrightarrow> substring_of query (Name u) \<or> substring_of query (About u))"
proof -
  have 1: "elems (filterData growcap data query) =
     map to_User (filter (\<lambda>rw. query = [] \<or> substring_of query (row_FirstName rw) \<or>
        substring_of query (row_LastName rw) \<or> substring_of query (row_About rw)) (Rows data))"
    by (simp add: elems_filterData isRowMatching_def Contains_iff)
  have 2: "substring_of query (Name u) \<or> substring_of query (About u)"
    if "u \<in> set (elems (filterData growcap data query))" "query \<noteq> []" for u
  proof -
    from that obtain rw where u: "u = to_User rw"
      and m: "substring_of query (row_FirstName rw) \<or>
        substring_of query (row_LastName rw) \<or> substring_of query (row_About rw)"
      unfolding 1 by auto
    from m show ?thesis
      unfolding u using substring_of_Name [of query rw] by (auto simp: to_User_def)
  qed
  from 1 2 show ?thesis by blast
qed

theorem filterData_includes_witness:
  "elems (filterData (\<lambda>c n. 2 * n) \<lparr>Rows = [ann_lee]\<rparr> ''nn'') = [to_User ann_lee] \<and>
   substring_of ''nn'' (Name (to_User ann_lee))"
  using filterData_includes [of "\<lambda>c n. 2 * n" "\<lparr>Rows = [ann_lee]\<rparr>" "''nn''"]
  by (simp add: ann_lee_def to_User_def flip: Contains_iff) (simp add: HasPrefix_def)

text \<open>
  C1 as stated fails: the full name \<open>Ann Lee\<close> contains the filter \<open>n L\<close>, and the
  record is not kept.
\<close>

theorem filterData_full_name_counterexample:
  "Contains (Name (to_User ann_lee)) ''n L'' \<and>
   elems (filterData (\<lambda>c n. 2 * n) \<lparr>Rows = [ann_lee]\<rparr> ''n L'') = []"
  by (simp add: filterData_def make_slice_def isRowMatching_def ann_lee_def to_User_def HasPrefix_def)

end
